theory Spec2Isabelle
  imports Complex_Main "HOL-Library.AList"
begin

section \<open>HyperBlend: the per-wavelength optimisation scheduler (src/optimization.py)\<close>

text \<open>
  Python floats are read as real numbers: every arithmetic operation of the source is its
  exact counterpart on \<^typ>\<open>real\<close>. A parameter vector \<open>x\<close> of the source always has
  four entries (the starting guess, the bounds and every vector the optimisers of scipy
  derive from them), so it is a 4-tuple here; \<open>x[0]\<close>, ..., \<open>x[3]\<close> are its components.
\<close>

subsection \<open>Module constants\<close>

type_synonym vec4 = "real \<times> real \<times> real \<times> real"

definition lb :: vec4 where
  "lb = (0.01, 0.01, -0.5, 0)"

definition ub :: vec4 where
  "ub = (1, 1, 0.5, 1)"

definition bounds :: "vec4 \<times> vec4" where
  "bounds = (lb, ub)"

definition density_scale :: real where
  "density_scale = 200"

definition ftol :: real where
  "ftol = 1 / 100"

definition ftol_abs :: real where
  "ftol_abs = 1.0"

definition xtol :: real where
  "xtol = 1 / 100000"

definition diffstep :: real where
  "diffstep = 0.005"

text \<open>Componentwise membership of a vector in the box \<open>bounds = (lb, ub)\<close>.\<close>

fun in_bounds :: "vec4 \<times> vec4 \<Rightarrow> vec4 \<Rightarrow> bool" where
  "in_bounds ((l0, l1, l2, l3), (u0, u1, u2, u3)) (x0, x1, x2, x3) =
     (l0 \<le> x0 \<and> x0 \<le> u0 \<and> l1 \<le> x1 \<and> x1 \<le> u1 \<and>
      l2 \<le> x2 \<and> x2 \<le> u2 \<and> l3 \<le> x3 \<and> x3 \<le> u3)"

subsection \<open>Errors\<close>

text \<open>The exceptions the modelled code can raise.\<close>

datatype error =
  Exception string
  | ZeroDivisionError
  | IndexError
  | KeyError
  | ValueError

subsection \<open>get_starting_guess\<close>

text \<open>
  The inner function \<open>f(coeffs)\<close> of \<open>get_starting_guess\<close>; the coefficient lists are the
  three-element literals of the source, read by index.
\<close>

definition poly2 :: "real \<Rightarrow> real list \<Rightarrow> real" where
  "poly2 absorption coeffs =
     coeffs ! 2 * absorption * absorption + coeffs ! 1 * absorption + coeffs ! 0"

definition absorption_density :: "real list" where
  "absorption_density = [0.15319704, 0.13493788, 0.43538607]"

definition scattering_density :: "real list" where
  "scattering_density = [0.59922746, -0.0009426, -0.31473394]"

definition scattering_anisotropy :: "real list" where
  "scattering_anisotropy = [0.29456347, -0.24329242, 0.14122699]"

definition mix_factor :: "real list" where
  "mix_factor = [0.793028, 0.2839754, -0.88555556]"

definition get_starting_guess :: "real \<Rightarrow> vec4" where
  "get_starting_guess absorption =
     (poly2 absorption absorption_density, poly2 absorption scattering_density,
      poly2 absorption scattering_anisotropy, poly2 absorption mix_factor)"

subsection \<open>The early-accept callback of basin hopping\<close>

text \<open>
  \<open>callback(x, f, accepted)\<close> returns \<open>True\<close> when \<open>f <= ftol_abs\<close> and falls off its end
  otherwise, which in Python returns \<open>None\<close>.
\<close>

definition callback :: "vec4 \<Rightarrow> real \<Rightarrow> bool \<Rightarrow> bool option" where
  "callback x fv accepted = (if fv \<le> ftol_abs then Some True else None)"

subsection \<open>Collaborators and state\<close>

text \<open>
  \<open>RenderParametersForSingle\<close>: the argument object of the simulator. The code sets every
  field before each call.
\<close>

record RenderParametersForSingle =
  clear_rend_folder :: bool
  clear_references :: bool
  render_references :: bool
  dry_run :: bool
  rp_wl :: real
  abs_dens :: real
  scat_dens :: real
  scat_ai :: real
  mix_fac :: real

text \<open>
  What an optimiser of scipy returns: \<open>res.x\<close> and, for the strategies that report it,
  \<open>res['nit']\<close>.
\<close>

record OptimizeResult =
  res_x :: vec4
  nit :: "nat option"

text \<open>
  An optimiser of scipy is a black box that may evaluate the objective any finite number
  of times, each time at a vector of its choice that may depend on the values seen so
  far (and on its own random choices, which select the tree), and then returns.
\<close>

datatype strategy =
  Return OptimizeResult
  | Eval vec4 "real \<Rightarrow> strategy"

text \<open>
  The collaborators of the module: the simulator (\<open>B.run_render_single\<close> followed by the
  two reads of \<open>DU.get_relative_refl_or_tran\<close>; its answer may depend on how many renders
  came before), the clock (read as a function of the number of renders done), and the four
  entry points of \<open>scipy.optimize\<close> the module calls, with the arguments that vary.
\<close>

record collaborators =
  run_render_single :: "nat \<Rightarrow> RenderParametersForSingle \<Rightarrow> real \<times> real"
  perf_counter :: "nat \<Rightarrow> real"
  least_squares :: "vec4 \<Rightarrow> strategy"
  shgo :: "vec4 \<times> vec4 \<Rightarrow> strategy"
  dual_annealing :: "vec4 \<times> vec4 \<Rightarrow> vec4 \<Rightarrow> strategy"
  basinhopping ::
    "vec4 \<Rightarrow> (vec4 \<Rightarrow> strategy) \<Rightarrow> (vec4 \<Rightarrow> real \<Rightarrow> bool \<Rightarrow> bool option) \<Rightarrow> strategy"

text \<open>The persisted record of one wavelength (the dictionary \<open>res_dict\<close>).\<close>

record Subresult =
  sr_wl :: real
  reflectance_measured :: real
  transmittance_measured :: real
  reflectance_modeled :: real
  transmittance_modeled :: real
  reflectance_error :: real
  transmittance_error :: real
  iterations :: nat
  optimizer :: string
  optimizer_ftol :: real
  optimizer_xtol :: real
  optimizer_diffstep :: real
  optimizer_result :: OptimizeResult
  elapsed_time_s :: real
  history_reflectance :: "real list"
  history_transmittance :: "real list"
  history_absorption_density :: "real list"
  history_scattering_density :: "real list"
  history_scattering_anisotropy :: "real list"
  history_mix_factor :: "real list"

text \<open>The persisted record of a set (the dictionary \<open>result_dict\<close>).\<close>

record FinalResult =
  wall_clock_elapsed_min :: real
  process_elapsed_min :: real
  r_RMSE :: real
  t_RMSE :: real
  fr_optimizer :: string
  fr_optimizer_ftol :: real
  fr_optimizer_xtol :: real
  fr_optimizer_diffstep :: real
  basin_iterations_required :: "nat option"
  fr_wls :: "real list"
  refls_modeled :: "real list"
  refls_measured :: "real list"
  refls_error :: "real list"
  trans_modeled :: "real list"
  trans_measured :: "real list"
  trans_error :: "real list"
  fr_absorption_density :: "real list"
  fr_scattering_density :: "real list"
  fr_scattering_anisotropy :: "real list"
  fr_mix_factor :: "real list"

text \<open>
  The world outside the process: the number of renders done so far and the files of the
  persistence layer, the sub-results of each set in the order \<open>T.collect_subresults\<close>
  lists them and the final result of each set.
\<close>

record world =
  renders :: nat
  subresult_files :: "string \<Rightarrow> (real \<times> Subresult) list"
  final_result_file :: "string \<Rightarrow> FinalResult option"

definition subresult_exists :: "world \<Rightarrow> string \<Rightarrow> real \<Rightarrow> bool" where
  "subresult_exists w set_name wl = (map_of (subresult_files w set_name) wl \<noteq> None)"

definition write_subresult :: "string \<Rightarrow> Subresult \<Rightarrow> world \<Rightarrow> world" where
  "write_subresult set_name res_dict w =
     w\<lparr>subresult_files := (subresult_files w)
          (set_name := AList.update (sr_wl res_dict) res_dict (subresult_files w set_name))\<rparr>"

definition collect_subresults :: "world \<Rightarrow> string \<Rightarrow> Subresult list" where
  "collect_subresults w set_name = map snd (subresult_files w set_name)"

definition read_final_result :: "world \<Rightarrow> string \<Rightarrow> unit + FinalResult" where
  "read_final_result w set_name =
     (case final_result_file w set_name of None \<Rightarrow> Inl () | Some r \<Rightarrow> Inr r)"

definition write_final_result :: "string \<Rightarrow> FinalResult \<Rightarrow> world \<Rightarrow> world" where
  "write_final_result set_name result_dict w =
     w\<lparr>final_result_file := (final_result_file w)(set_name \<mapsto> result_dict)\<rparr>"

subsection \<open>The objective function\<close>

text \<open>One call of the simulator: the answer of render number \<open>renders w\<close>, and one more render done.\<close>

definition render ::
  "collaborators \<Rightarrow> RenderParametersForSingle \<Rightarrow> world \<Rightarrow> (real \<times> real) \<times> world" where
  "render E rps w = (run_render_single E (renders w) rps, w\<lparr>renders := Suc (renders w)\<rparr>)"

definition distance :: "real \<Rightarrow> real \<Rightarrow> real \<Rightarrow> real \<Rightarrow> real" where
  "distance r_m t_m r t =
     (let r_diff = r - r_m;
          t_diff = t - t_m;
          dist = sqrt (r_diff * r_diff + t_diff * t_diff)
      in dist)"

definition some_big_number :: real where
  "some_big_number = 1000000"

text \<open>The render parameters \<open>f(x)\<close> builds from \<open>x\<close>.\<close>

definition rps_of :: "real \<Rightarrow> vec4 \<Rightarrow> RenderParametersForSingle" where
  "rps_of wl x =
     (case x of (x0, x1, x2, x3) \<Rightarrow>
        \<lparr>clear_rend_folder = False, clear_references = False, render_references = False,
         dry_run = False, rp_wl = wl, abs_dens = x0 * density_scale,
         scat_dens = x1 * density_scale, scat_ai = x2, mix_fac = x3\<rparr>)"

text \<open>The history row \<open>[*x, r, t]\<close>.\<close>

definition row :: "vec4 \<Rightarrow> real \<Rightarrow> real \<Rightarrow> real list" where
  "row x r t = (case x of (x0, x1, x2, x3) \<Rightarrow> [x0, x1, x2, x3, r, t])"

text \<open>
  The closure \<open>f(x)\<close> of \<open>optimize_single_wl\<close>. Its state is the list \<open>history\<close> it appends to
  and the world the simulator runs in; its value is the scaled distance plus the penalty.
\<close>

definition f ::
  "collaborators \<Rightarrow> real \<Rightarrow> real \<Rightarrow> real \<Rightarrow> vec4 \<Rightarrow> real list list \<times> world
     \<Rightarrow> real \<times> (real list list \<times> world)" where
  "f E wl r_m t_m x s =
     (let (history, w) = s;
          ((r, t), w') = render E (rps_of wl x) w;
          dist = distance r_m t_m r t * density_scale;
          history' = history @ [row x r t];
          penalty = (if r + t > 1 then some_big_number else 0)
      in (dist + penalty, (history', w')))"

subsection \<open>Running a strategy against the objective\<close>

primrec run_strategy ::
  "(vec4 \<Rightarrow> 's \<Rightarrow> real \<times> 's) \<Rightarrow> strategy \<Rightarrow> 's \<Rightarrow> OptimizeResult \<times> 's" where
  "run_strategy obj (Return res) = (\<lambda>s. (res, s))"
| "run_strategy obj (Eval x k) = (\<lambda>s. case obj x s of (y, s') \<Rightarrow> run_strategy obj (k y) s')"

text \<open>
  \<open>custom_local_minimizer(fun, x0, ...)\<close> ignores its other arguments and calls
  \<open>optimize.least_squares\<close> from \<open>x0\<close>.
\<close>

definition custom_local_minimizer :: "collaborators \<Rightarrow> vec4 \<Rightarrow> strategy" where
  "custom_local_minimizer E x0 = least_squares E x0"

text \<open>
  The \<open>if/elif/else\<close> chain on \<open>opt_method\<close>. The random step object \<open>Stepper\<close> handed to
  basin hopping is part of the behaviour of \<open>basinhopping E\<close>.
\<close>

definition select_strategy :: "collaborators \<Rightarrow> string \<Rightarrow> vec4 \<Rightarrow> error + strategy" where
  "select_strategy E opt_method x_0 =
     (if opt_method = ''least_squares'' then Inr (least_squares E x_0)
      else if opt_method = ''shgo'' then Inr (shgo E (lb, ub))
      else if opt_method = ''anneal'' then Inr (dual_annealing E (lb, ub) x_0)
      else if opt_method = ''basin_hopping''
        then Inr (basinhopping E x_0 (custom_local_minimizer E) callback)
      else Inl (Exception (''Optimization method '' @ [CHR 0x27] @ opt_method @ [CHR 0x27]
                  @ '' not recognized.'')))"

subsection \<open>optimize_single_wl\<close>

text \<open>The parameters of the reference render.\<close>

definition rps_reference :: "real \<Rightarrow> RenderParametersForSingle" where
  "rps_reference wl =
     \<lparr>clear_rend_folder = False, clear_references = False, render_references = True,
      dry_run = False, rp_wl = wl, abs_dens = 0, scat_dens = 0, scat_ai = 0, mix_fac = 0\<rparr>"

text \<open>The dictionary \<open>res_dict\<close> built from the final history.\<close>

definition make_res_dict ::
  "real \<Rightarrow> real \<Rightarrow> real \<Rightarrow> string \<Rightarrow> OptimizeResult \<Rightarrow> real \<Rightarrow> real list list \<Rightarrow> Subresult" where
  "make_res_dict wl r_m t_m opt_method res elapsed history =
     \<lparr>sr_wl = wl,
      reflectance_measured = r_m,
      transmittance_measured = t_m,
      reflectance_modeled = last history ! 4,
      transmittance_modeled = last history ! 5,
      reflectance_error = \<bar>last history ! 4 - r_m\<bar>,
      transmittance_error = \<bar>last history ! 5 - t_m\<bar>,
      iterations = length history - 1,
      optimizer = opt_method,
      optimizer_ftol = ftol,
      optimizer_xtol = xtol,
      optimizer_diffstep = diffstep,
      optimizer_result = res,
      elapsed_time_s = elapsed,
      history_reflectance = map (\<lambda>h. h ! 4) history,
      history_transmittance = map (\<lambda>h. h ! 5) history,
      history_absorption_density = map (\<lambda>h. h ! 0) history,
      history_scattering_density = map (\<lambda>h. h ! 1) history,
      history_scattering_anisotropy = map (\<lambda>h. h ! 2) history,
      history_mix_factor = map (\<lambda>h. h ! 3) history\<rparr>"

text \<open>
  The driver of one wavelength. The outcome is \<open>Inr ()\<close> for a normal return and \<open>Inl e\<close>
  for the exception \<open>e\<close>, together with the world as the call leaves it. The plot written
  at the end is not part of the world.
\<close>

definition optimize_single_wl ::
  "collaborators \<Rightarrow> real \<Rightarrow> real \<Rightarrow> real \<Rightarrow> string \<Rightarrow> string \<Rightarrow> world
     \<Rightarrow> (error + unit) \<times> world" where
  "optimize_single_wl E wl r_m t_m set_name opt_method w =
     (if subresult_exists w set_name wl then (Inr (), w)
      else
        let start = perf_counter E (renders w);
            w1 = snd (render E (rps_reference wl) w);
            x_0 = get_starting_guess (1 - (r_m + t_m));
            history = [row x_0 0.0 0.0]
        in case select_strategy E opt_method x_0 of
             Inl e \<Rightarrow> (Inl e, w1)
           | Inr strat \<Rightarrow>
               (let (res, s2) = run_strategy (f E wl r_m t_m) strat (history, w1);
                    elapsed = perf_counter E (renders (snd s2)) - start;
                    (history3, w3) = snd (f E wl r_m t_m (res_x res) s2);
                    res_dict = make_res_dict wl r_m t_m opt_method res elapsed history3
                in (Inr (), write_subresult set_name res_dict w3)))"

subsection \<open>make_final_result\<close>

text \<open>\<open>np.mean\<close> of a non-empty array.\<close>

definition mean :: "real list \<Rightarrow> real" where
  "mean xs = sum_list xs / real (length xs)"

text \<open>
  The dictionary \<open>result_dict\<close> the aggregator fills in, from the merged wall-clock time
  and the sub-results. The one-element tuples the code stores under the optimizer keys
  hold the values written here.
\<close>

definition make_result_dict :: "real \<Rightarrow> Subresult list \<Rightarrow> FinalResult" where
  "make_result_dict wall subreslist =
     \<lparr>wall_clock_elapsed_min = wall,
      process_elapsed_min = sum_list (map elapsed_time_s subreslist) / 60.0,
      r_RMSE = sqrt (mean (map (\<lambda>e. e ^ 2) (map reflectance_error subreslist))),
      t_RMSE = sqrt (mean (map (\<lambda>e. e ^ 2) (map transmittance_error subreslist))),
      fr_optimizer = optimizer (subreslist ! 0),
      fr_optimizer_ftol = ftol,
      fr_optimizer_xtol = xtol,
      fr_optimizer_diffstep = diffstep,
      basin_iterations_required =
        (if optimizer (subreslist ! 0) = ''basin_hopping''
         then Some (length (filter (\<lambda>subres.
                case nit (optimizer_result subres) of Some n \<Rightarrow> n > 1 | None \<Rightarrow> False)
                subreslist))
         else None),
      fr_wls = map sr_wl subreslist,
      refls_modeled = map reflectance_modeled subreslist,
      refls_measured = map reflectance_measured subreslist,
      refls_error = map reflectance_error subreslist,
      trans_modeled = map transmittance_modeled subreslist,
      trans_measured = map transmittance_measured subreslist,
      trans_error = map transmittance_error subreslist,
      fr_absorption_density = map (\<lambda>subres. last (history_absorption_density subres)) subreslist,
      fr_scattering_density = map (\<lambda>subres. last (history_scattering_density subres)) subreslist,
      fr_scattering_anisotropy =
        map (\<lambda>subres. last (history_scattering_anisotropy subres)) subreslist,
      fr_mix_factor = map (\<lambda>subres. last (history_mix_factor subres)) subreslist\<rparr>"

text \<open>
  The aggregator. \<open>T.read_final_result\<close> fails with \<open>OSError\<close> when there is no file, which
  the code catches; \<open>subreslist[0]\<close> raises \<open>IndexError\<close> on an empty list, \<open>['nit']\<close> raises
  \<open>KeyError\<close> on a result without it, and \<open>[-1]\<close> raises \<open>IndexError\<close> on an empty history.
  The plot written at the end is not part of the world.
\<close>

definition make_final_result :: "string \<Rightarrow> real \<Rightarrow> world \<Rightarrow> (error + unit) \<times> world" where
  "make_final_result set_name wall_clock_time_min w =
     (let subreslist = collect_subresults w set_name;
          wall =
            (case read_final_result w set_name of
               Inr previous_result \<Rightarrow>
                 (let this_result_time = wall_clock_time_min;
                      previous_result_time = wall_clock_elapsed_min previous_result
                  in this_result_time + previous_result_time)
             | Inl os_error \<Rightarrow> wall_clock_time_min)
      in if subreslist = [] then (Inl IndexError, w)
         else if optimizer (subreslist ! 0) = ''basin_hopping''
                 \<and> list_ex (\<lambda>subres. nit (optimizer_result subres) = None) subreslist
           then (Inl KeyError, w)
         else if list_ex (\<lambda>subres. history_absorption_density subres = []
                    \<or> history_scattering_density subres = []
                    \<or> history_scattering_anisotropy subres = []
                    \<or> history_mix_factor subres = []) subreslist
           then (Inl IndexError, w)
         else (Inr (), write_final_result set_name (make_result_dict wall subreslist) w))"

text \<open>
  What the aggregator needs of the sub-results it collects so as not to raise: there is
  one, each has a non-empty history, and each carries \<open>nit\<close> when the first one names
  basin hopping.
\<close>

definition aggregable :: "Subresult list \<Rightarrow> bool" where
  "aggregable subreslist =
     (subreslist \<noteq> [] \<and>
      (optimizer (subreslist ! 0) = ''basin_hopping''
         \<longrightarrow> list_all (\<lambda>subres. nit (optimizer_result subres) \<noteq> None) subreslist) \<and>
      list_all (\<lambda>subres. history_absorption_density subres \<noteq> []
                    \<and> history_scattering_density subres \<noteq> []
                    \<and> history_scattering_anisotropy subres \<noteq> []
                    \<and> history_mix_factor subres \<noteq> []) subreslist)"

subsection \<open>run_optimization: spectral resolution\<close>

text \<open>
  Python's extended slice \<open>xs[start:stop:step]\<close> for integer \<open>start\<close>, \<open>stop\<close>, \<open>step\<close>:
  negative indices count from the end, both ends are clamped, a zero step raises
  \<open>ValueError\<close>.
\<close>

definition adjust_index :: "int \<Rightarrow> int \<Rightarrow> int \<Rightarrow> int" where
  "adjust_index n step i =
     (if i < 0
      then (if i + n < 0 then (if step < 0 then -1 else 0) else i + n)
      else if i \<ge> n then (if step < 0 then n - 1 else n)
      else i)"

definition slice_length :: "int \<Rightarrow> int \<Rightarrow> int \<Rightarrow> int" where
  "slice_length start stop step =
     (if step < 0
      then (if stop < start then (start - stop - 1) div (- step) + 1 else 0)
      else (if start < stop then (stop - start - 1) div step + 1 else 0))"

definition py_slice :: "'a list \<Rightarrow> int \<Rightarrow> int \<Rightarrow> int \<Rightarrow> error + 'a list" where
  "py_slice xs start stop step =
     (if step = 0 then Inl ValueError
      else
        let n = int (length xs);
            start' = adjust_index n step start;
            stop' = adjust_index n step stop;
            len = slice_length start' stop' step
        in Inr (map (\<lambda>i. xs ! nat (start' + int i * step)) [0..<nat len]))"

text \<open>
  The targets \<open>run_optimization\<close> goes on with, after
  \<open>if resolution is not 1: targets = targets[0:-1:resolution]\<close>.
\<close>

definition run_optimization_targets :: "'a list \<Rightarrow> int \<Rightarrow> error + 'a list" where
  "run_optimization_targets targets resolution =
     (if resolution \<noteq> 1 then py_slice targets 0 (-1) resolution else Inr targets)"

subsection \<open>run_optimization_in_batches\<close>

text \<open>\<open>int(a / b)\<close> for two counts.\<close>

definition int_div :: "nat \<Rightarrow> nat \<Rightarrow> error + nat" where
  "int_div a b = (if b = 0 then Inl ZeroDivisionError else Inr (a div b))"

text \<open>The inner loop: \<open>selector = []\<close>, then \<open>selector.append(i+j*step_size)\<close> for each \<open>j\<close>.\<close>

definition make_selector :: "nat \<Rightarrow> nat \<Rightarrow> nat \<Rightarrow> nat list" where
  "make_selector i batch_size step_size =
     fold (\<lambda>j selector. selector @ [i + j * step_size]) [0..<batch_size] []"

text \<open>Indexing the target array with a list of indices, \<open>T.read_target(set_name)[selector]\<close>.\<close>

definition take_indices :: "'a list \<Rightarrow> nat list \<Rightarrow> error + 'a list" where
  "take_indices xs selector =
     (if list_all (\<lambda>k. k < length xs) selector then Inr (map (\<lambda>k. xs ! k) selector)
      else Inl IndexError)"

text \<open>
  The outer loop over \<open>i\<close>, with \<open>run_optimization\<close> as the parameter \<open>run\<close>: an exception
  of a batch ends the loop.
\<close>

fun batch_loop ::
  "('a list \<Rightarrow> 's \<Rightarrow> (error + unit) \<times> 's) \<Rightarrow> 'a list \<Rightarrow> nat \<Rightarrow> nat \<Rightarrow> nat list \<Rightarrow> 's
     \<Rightarrow> (error + unit) \<times> 's" where
  "batch_loop run targets batch_size step_size [] s = (Inr (), s)"
| "batch_loop run targets batch_size step_size (i # rest) s =
     (case take_indices targets (make_selector i batch_size step_size) of
        Inl e \<Rightarrow> (Inl e, s)
      | Inr wls \<Rightarrow>
          (case run wls s of
             (Inl e, s') \<Rightarrow> (Inl e, s')
           | (Inr u, s') \<Rightarrow> batch_loop run targets batch_size step_size rest s'))"

definition run_optimization_in_batches ::
  "('a list \<Rightarrow> 's \<Rightarrow> (error + unit) \<times> 's) \<Rightarrow> 'a list \<Rightarrow> nat \<Rightarrow> 's \<Rightarrow> (error + unit) \<times> 's" where
  "run_optimization_in_batches run targets batch_n s =
     (let wl_n = length targets in
      case int_div wl_n batch_n of
        Inl e \<Rightarrow> (Inl e, s)
      | Inr batch_size \<Rightarrow>
          (case int_div wl_n batch_size of
             Inl e \<Rightarrow> (Inl e, s)
           | Inr step_size \<Rightarrow>
               (case batch_loop run targets batch_size step_size [0..<batch_n] s of
                  (Inl e, s') \<Rightarrow> (Inl e, s')
                | (Inr u, s') \<Rightarrow>
                    if wl_n mod batch_n \<noteq> 0
                    then (case take_indices targets [wl_n - 1] of
                            Inl e \<Rightarrow> (Inl e, s')
                          | Inr wls \<Rightarrow> run wls s')
                    else (Inr (), s'))))"

text \<open>
  A stand-in for \<open>run_optimization\<close> that only records the batch it is given, to read off
  which batches \<open>run_optimization_in_batches\<close> runs and in which order.
\<close>

definition record_batch :: "'a list \<Rightarrow> 'a list list \<Rightarrow> (error + unit) \<times> 'a list list" where
  "record_batch wls batches = (Inr (), batches @ [wls])"

subsection \<open>Reading a persisted history\<close>

text \<open>
  The first and the last evaluation record of a sub-result, put together again from its
  six parallel sequences in the order of a history row.
\<close>

definition first_record :: "Subresult \<Rightarrow> real list" where
  "first_record sr =
     [hd (history_absorption_density sr), hd (history_scattering_density sr),
      hd (history_scattering_anisotropy sr), hd (history_mix_factor sr),
      hd (history_reflectance sr), hd (history_transmittance sr)]"

definition last_record :: "Subresult \<Rightarrow> real list" where
  "last_record sr =
     [last (history_absorption_density sr), last (history_scattering_density sr),
      last (history_scattering_anisotropy sr), last (history_mix_factor sr),
      last (history_reflectance sr), last (history_transmittance sr)]"

subsection \<open>Concrete inputs\<close>

text \<open>
  A small simulator whose answer is read off the parameters, optimisers that evaluate the
  objective once or twice, and a fresh world.
\<close>

definition ex_render :: "nat \<Rightarrow> RenderParametersForSingle \<Rightarrow> real \<times> real" where
  "ex_render n rps = (mix_fac rps, scat_ai rps + 1 / 2)"

definition ex_collaborators :: collaborators where
  "ex_collaborators =
     \<lparr>run_render_single = ex_render,
      perf_counter = (\<lambda>n. 30 * real n),
      least_squares = (\<lambda>x0. Eval x0 (\<lambda>y. Return \<lparr>res_x = x0, nit = None\<rparr>)),
      shgo = (\<lambda>b. Eval (fst b) (\<lambda>y. Eval (snd b) (\<lambda>y'. Return \<lparr>res_x = fst b, nit = Some 1\<rparr>))),
      dual_annealing = (\<lambda>b x0. Eval x0 (\<lambda>y. Return \<lparr>res_x = x0, nit = Some 1\<rparr>)),
      basinhopping = (\<lambda>x0 minimizer cb.
         Eval x0 (\<lambda>y. Eval (1 / 2, 1 / 2, 0, 1 / 4) (\<lambda>y'. Return \<lparr>res_x = x0, nit = Some 2\<rparr>)))\<rparr>"

definition ex_world :: world where
  "ex_world = \<lparr>renders = 0, subresult_files = (\<lambda>s. []), final_result_file = (\<lambda>s. None)\<rparr>"

definition ex_subresult :: "real \<Rightarrow> real \<Rightarrow> real \<Rightarrow> Subresult" where
  "ex_subresult wl err secs =
     \<lparr>sr_wl = wl,
      reflectance_measured = 1 / 5,
      transmittance_measured = 3 / 10,
      reflectance_modeled = 1 / 5 + err,
      transmittance_modeled = 3 / 10 + err,
      reflectance_error = err,
      transmittance_error = err,
      iterations = 1,
      optimizer = ''basin_hopping'',
      optimizer_ftol = ftol,
      optimizer_xtol = xtol,
      optimizer_diffstep = diffstep,
      optimizer_result = \<lparr>res_x = (1 / 2, 1 / 2, 0, 1 / 4), nit = Some 2\<rparr>,
      elapsed_time_s = secs,
      history_reflectance = [0, 1 / 5 + err],
      history_transmittance = [0, 3 / 10 + err],
      history_absorption_density = [1 / 2, 1 / 2],
      history_scattering_density = [1 / 2, 1 / 2],
      history_scattering_anisotropy = [0, 0],
      history_mix_factor = [1 / 4, 1 / 4]\<rparr>"

definition ex_stored :: world where
  "ex_stored =
     ex_world\<lparr>subresult_files := (\<lambda>s. if s = ''leaf''
        then [(500, ex_subresult 500 (1 / 10) 60), (510, ex_subresult 510 (1 / 5) 120),
              (520, ex_subresult 520 (3 / 10) 180)]
        else [])\<rparr>"

section \<open>Properties\<close>

subsection \<open>The checkpoint skip\<close>

lemma ex_stored_exists: "subresult_exists ex_stored ''leaf'' 500"
  by (simp add: subresult_exists_def ex_stored_def ex_world_def)

lemma ex_world_fresh: "\<not> subresult_exists ex_world ''leaf'' 500"
  by (simp add: subresult_exists_def ex_world_def)

text \<open>
  C1. When a sub-result of the wavelength already exists under the set name,
  \<open>optimize_single_wl\<close> returns normally and leaves the world as it found it: the number of
  renders is the same, so the simulator was not called, and every persisted file,
  the existing sub-result among them, is unchanged.
\<close>

theorem skip_existing:
  "subresult_exists w set_name wl \<Longrightarrow>
   optimize_single_wl E wl r_m t_m set_name opt_method w = (Inr (), w)"
  by (simp add: optimize_single_wl_def)

theorem skip_existing_witness:
  "subresult_exists ex_stored ''leaf'' 500 \<and>
   optimize_single_wl ex_collaborators 500 (1 / 5) (3 / 10) ''leaf'' ''basin_hopping'' ex_stored
     = (Inr (), ex_stored)"
  using skip_existing [OF ex_stored_exists] ex_stored_exists by simp

subsection \<open>The objective and its penalty\<close>

lemma distance_nonneg: "0 \<le> distance r_m t_m r t"
  by (simp add: distance_def Let_def)

lemma distance_le_2:
  assumes "0 \<le> r" "r \<le> 1" "0 \<le> t" "t \<le> 1" "0 \<le> r_m" "r_m \<le> 1" "0 \<le> t_m" "t_m \<le> 1"
  shows "distance r_m t_m r t \<le> 2"
proof -
  have a: "\<bar>r - r_m\<bar> \<le> 1" and b: "\<bar>t - t_m\<bar> \<le> 1" using assms by auto
  have "(r - r_m) * (r - r_m) \<le> 1 * 1"
    using a by (metis abs_mult_self_eq abs_ge_zero mult_mono zero_le_one)
  moreover have "(t - t_m) * (t - t_m) \<le> 1 * 1"
    using b by (metis abs_mult_self_eq abs_ge_zero mult_mono zero_le_one)
  ultimately have "(r - r_m) * (r - r_m) + (t - t_m) * (t - t_m) \<le> 4" by simp
  then have "sqrt ((r - r_m) * (r - r_m) + (t - t_m) * (t - t_m)) \<le> sqrt 4"
    using real_sqrt_le_mono by blast
  then show ?thesis by (simp add: distance_def Let_def)
qed

lemma f_value:
  "run_render_single E (renders w) (rps_of wl x) = (r, t) \<Longrightarrow>
   fst (f E wl r_m t_m x (h, w)) =
     distance r_m t_m r t * density_scale + (if r + t > 1 then some_big_number else 0)"
  by (simp add: f_def render_def)

lemma ex_render_hi:
  "run_render_single ex_collaborators (renders ex_world) (rps_of 500 (1 / 2, 1 / 2, 1 / 4, 1 / 2))
     = (1 / 2, 3 / 4)"
  by (simp add: ex_collaborators_def ex_render_def rps_of_def)

lemma ex_render_lo:
  "run_render_single ex_collaborators (renders ex_world) (rps_of 500 (1 / 2, 1 / 2, 0, 1 / 4))
     = (1 / 4, 1 / 2)"
  by (simp add: ex_collaborators_def ex_render_def rps_of_def)

text \<open>
  C3. Let \<open>(r, t)\<close> be what the simulator answers for the vector \<open>x\<close>. If \<open>r + t > 1\<close>, the
  objective \<open>f(x)\<close> is at least \<open>1e6\<close>. If \<open>r + t \<le> 1\<close> and \<open>r\<close>, \<open>t\<close>, \<open>r_m\<close>, \<open>t_m\<close> all lie
  in \<open>[0, 1]\<close>, the objective is strictly below \<open>1e6\<close>.
\<close>

theorem objective_penalty:
  assumes "run_render_single E (renders w) (rps_of wl x) = (r, t)"
  shows "(r + t > 1 \<longrightarrow> fst (f E wl r_m t_m x (h, w)) \<ge> 1000000) \<and>
         (r + t \<le> 1 \<and> 0 \<le> r \<and> r \<le> 1 \<and> 0 \<le> t \<and> t \<le> 1 \<and> 0 \<le> r_m \<and> r_m \<le> 1
            \<and> 0 \<le> t_m \<and> t_m \<le> 1 \<longrightarrow> fst (f E wl r_m t_m x (h, w)) < 1000000)"
proof (intro conjI impI)
  assume "r + t > 1"
  then show "fst (f E wl r_m t_m x (h, w)) \<ge> 1000000"
    using distance_nonneg [of r_m t_m r t]
    by (simp add: f_value [OF assms] density_scale_def some_big_number_def)
next
  assume b: "r + t \<le> 1 \<and> 0 \<le> r \<and> r \<le> 1 \<and> 0 \<le> t \<and> t \<le> 1 \<and> 0 \<le> r_m \<and> r_m \<le> 1
            \<and> 0 \<le> t_m \<and> t_m \<le> 1"
  then have "distance r_m t_m r t \<le> 2" by (simp add: distance_le_2)
  then show "fst (f E wl r_m t_m x (h, w)) < 1000000"
    using b by (simp add: f_value [OF assms] density_scale_def)
qed

theorem objective_penalty_witness:
  "fst (f ex_collaborators 500 (1 / 5) (3 / 10) (1 / 2, 1 / 2, 1 / 4, 1 / 2) ([], ex_world))
     \<ge> 1000000 \<and>
   fst (f ex_collaborators 500 (1 / 5) (3 / 10) (1 / 2, 1 / 2, 0, 1 / 4) ([], ex_world))
     < 1000000"
  using objective_penalty [OF ex_render_hi, of "1 / 5" "3 / 10" "[]"]
        objective_penalty [OF ex_render_lo, of "1 / 5" "3 / 10" "[]"]
  by simp

subsection \<open>The starting guess\<close>

text \<open>
  C8. For every proxy value in \<open>[0, 1]\<close> the starting guess lies in the box \<open>bounds\<close>: the
  first two components in \<open>[0.01, 1]\<close>, the third in \<open>[-0.5, 0.5]\<close>, the fourth in \<open>[0, 1]\<close>.
\<close>

theorem starting_guess_in_bounds:
  assumes "0 \<le> a" and "a \<le> 1"
  shows "in_bounds bounds (get_starting_guess a)"
proof -
  have sq: "0 \<le> a * a" "a * a \<le> a" "a * a \<le> 1"
    using assms by (auto simp add: mult_left_le mult_le_one)
  have "0 \<le> (a - 4 / 25) * (a - 4 / 25)" by simp
  then have top: "8 / 25 * a - 16 / 625 \<le> a * a" by (simp add: algebra_simps)
  show ?thesis
    unfolding bounds_def lb_def ub_def get_starting_guess_def poly2_def
      absorption_density_def scattering_density_def scattering_anisotropy_def mix_factor_def
    using assms sq top by (simp add: algebra_simps)
qed

theorem starting_guess_in_bounds_witness:
  "(0::real) \<le> 1 / 2 \<and> (1 / 2::real) \<le> 1 \<and> in_bounds bounds (get_starting_guess (1 / 2))"
  using starting_guess_in_bounds [of "1 / 2"] by simp

subsection \<open>Strategy selection\<close>

lemma select_unrecognized:
  "opt_method \<notin> {''least_squares'', ''shgo'', ''anneal'', ''basin_hopping''} \<Longrightarrow>
   select_strategy E opt_method x_0 =
     Inl (Exception (''Optimization method '' @ [CHR 0x27] @ opt_method @ [CHR 0x27]
                  @ '' not recognized.''))"
  by (simp add: select_strategy_def)

lemma ex_unrecognized:
  "''newton'' \<notin> {''least_squares'', ''shgo'', ''anneal'', ''basin_hopping''}"
  by simp

text \<open>
  C9. For an optimizer identifier other than the four recognized names, the driver
  persists no sub-result, and when the wavelength has no sub-result yet (so that a fit is
  attempted) it ends with the exception "Optimization method ... not recognized." after
  the reference render alone: no strategy runs in place of the unknown one.
\<close>

theorem unrecognized_optimizer:
  assumes "opt_method \<notin> {''least_squares'', ''shgo'', ''anneal'', ''basin_hopping''}"
  shows "subresult_files (snd (optimize_single_wl E wl r_m t_m set_name opt_method w))
           = subresult_files w \<and>
         (\<not> subresult_exists w set_name wl \<longrightarrow>
            fst (optimize_single_wl E wl r_m t_m set_name opt_method w) =
              Inl (Exception (''Optimization method '' @ [CHR 0x27] @ opt_method @ [CHR 0x27]
                  @ '' not recognized.'')) \<and>
            renders (snd (optimize_single_wl E wl r_m t_m set_name opt_method w))
              = Suc (renders w))"
  using select_unrecognized [OF assms]
  by (simp add: optimize_single_wl_def Let_def render_def)

theorem unrecognized_optimizer_witness:
  "''newton'' \<notin> {''least_squares'', ''shgo'', ''anneal'', ''basin_hopping''} \<and>
   \<not> subresult_exists ex_world ''leaf'' 500 \<and>
   fst (optimize_single_wl ex_collaborators 500 (1 / 5) (3 / 10) ''leaf'' ''newton'' ex_world) =
     Inl (Exception ''Optimization method 'newton' not recognized.'') \<and>
   subresult_files
     (snd (optimize_single_wl ex_collaborators 500 (1 / 5) (3 / 10) ''leaf'' ''newton'' ex_world))
     = subresult_files ex_world"
  using unrecognized_optimizer
          [OF ex_unrecognized, of ex_collaborators 500 "1 / 5" "3 / 10" "''leaf''" ex_world]
        ex_world_fresh ex_unrecognized
  by simp

subsection \<open>The early-accept callback\<close>

text \<open>
  C10, as the claim has it: the callback asks to stop exactly for an accepted candidate
  whose value is at most \<open>ftol_abs\<close>. It fails for a rejected candidate of value \<open>1/2\<close>,
  for which the callback answers \<open>True\<close> as well.
\<close>

theorem callback_rejected_counterexample:
  "\<not> ((callback (1 / 2, 1 / 2, 0, 1 / 2) (1 / 2) False = Some True)
        = (False \<and> (1 / 2::real) \<le> ftol_abs))"
  by (simp add: callback_def ftol_abs_def)

text \<open>
  C10, amended: the callback returns \<open>True\<close> exactly when the value it is given is at most
  \<open>ftol_abs = 1.0\<close>, whether the candidate was accepted or not, and returns \<open>None\<close>, which
  asks for nothing, exactly when the value is above \<open>1.0\<close>.
\<close>

theorem callback_threshold:
  "(callback x fv accepted = Some True) = (fv \<le> 1) \<and>
   (callback x fv accepted = None) = (1 < fv)"
  by (auto simp add: callback_def ftol_abs_def)

subsection \<open>The aggregator\<close>

lemma make_final_result_ok:
  assumes "aggregable (collect_subresults w set_name)"
  shows "make_final_result set_name wall w =
     (Inr (), write_final_result set_name
        (make_result_dict
           (case final_result_file w set_name of None \<Rightarrow> wall
            | Some previous_result \<Rightarrow> wall + wall_clock_elapsed_min previous_result)
           (collect_subresults w set_name)) w)"
  using assms
  by (auto simp add: make_final_result_def aggregable_def read_final_result_def Let_def
        list_ex_iff list_all_iff split: option.splits)

lemma final_result_file_written:
  "final_result_file (write_final_result set_name fr w) set_name = Some fr"
  by (simp add: write_final_result_def)

lemma ex_stored_subresults:
  "collect_subresults ex_stored ''leaf'' =
     [ex_subresult 500 (1 / 10) 60, ex_subresult 510 (1 / 5) 120, ex_subresult 520 (3 / 10) 180]"
  by (simp add: collect_subresults_def ex_stored_def ex_world_def)

lemma ex_stored_aggregable: "aggregable (collect_subresults ex_stored ''leaf'')"
  by (simp add: ex_stored_subresults aggregable_def ex_subresult_def)

text \<open>
  C5. When the aggregator has a set of sub-results it can read, none missing, it returns
  normally and persists as reflectance RMSE the square root of the mean of the squared
  reflectance errors of all collected sub-results, and likewise for transmittance. For
  the errors \<open>[0.1, 0.2, 0.3]\<close> this is \<open>sqrt((0.01+0.04+0.09)/3)\<close>.
\<close>

theorem rmse_of_errors:
  assumes "aggregable (collect_subresults w set_name)"
  shows "\<exists>fr. fst (make_final_result set_name wall w) = Inr () \<and>
           final_result_file (snd (make_final_result set_name wall w)) set_name = Some fr \<and>
           r_RMSE fr = sqrt (sum_list (map (\<lambda>sr. (reflectance_error sr)\<^sup>2) (collect_subresults w set_name))
                             / real (length (collect_subresults w set_name))) \<and>
           t_RMSE fr = sqrt (sum_list (map (\<lambda>sr. (transmittance_error sr)\<^sup>2) (collect_subresults w set_name))
                             / real (length (collect_subresults w set_name)))"
  by (simp add: make_final_result_ok [OF assms] final_result_file_written make_result_dict_def
        mean_def comp_def)

theorem rmse_of_errors_witness:
  "map reflectance_error (collect_subresults ex_stored ''leaf'') = [0.1, 0.2, 0.3] \<and>
   (\<exists>fr. final_result_file (snd (make_final_result ''leaf'' 5 ex_stored)) ''leaf'' = Some fr \<and>
      r_RMSE fr = sqrt ((0.01 + 0.04 + 0.09) / 3))"
  using rmse_of_errors [OF ex_stored_aggregable, of 5]
  by (auto simp add: ex_stored_subresults ex_subresult_def power2_eq_square)

text \<open>
  C4. Two runs of the aggregator on the same set, the second one reading the final result
  the first one persisted (the sub-results may have grown in between): both return
  normally; a first run that finds no final result persists its own wall-clock input; the
  second run persists the sum of the first run's persisted wall-clock time and its own
  input; and its process time is the sum of the elapsed seconds of the sub-results it
  collects, in minutes, with no share of the earlier run in it.
\<close>

theorem wall_clock_accumulates:
  assumes "aggregable (collect_subresults w set_name)"
      and "aggregable (collect_subresults w' set_name)"
      and "final_result_file w' = final_result_file (snd (make_final_result set_name wall1 w))"
  shows "\<exists>fr1 fr2.
           fst (make_final_result set_name wall1 w) = Inr () \<and>
           final_result_file (snd (make_final_result set_name wall1 w)) set_name = Some fr1 \<and>
           fst (make_final_result set_name wall2 w') = Inr () \<and>
           final_result_file (snd (make_final_result set_name wall2 w')) set_name = Some fr2 \<and>
           (final_result_file w set_name = None \<longrightarrow> wall_clock_elapsed_min fr1 = wall1) \<and>
           wall_clock_elapsed_min fr2 = wall_clock_elapsed_min fr1 + wall2 \<and>
           process_elapsed_min fr2
             = sum_list (map elapsed_time_s (collect_subresults w' set_name)) / 60"
proof -
  have prev: "final_result_file w' set_name
      = Some (make_result_dict
           (case final_result_file w set_name of None \<Rightarrow> wall1
            | Some previous_result \<Rightarrow> wall1 + wall_clock_elapsed_min previous_result)
           (collect_subresults w set_name))"
    by (simp add: assms(3) make_final_result_ok [OF assms(1)] final_result_file_written)
  show ?thesis
    by (simp add: make_final_result_ok [OF assms(1)] make_final_result_ok [OF assms(2)]
          final_result_file_written prev make_result_dict_def)
qed

lemma ex_second_run:
  "collect_subresults (snd (make_final_result ''leaf'' 5 ex_stored)) ''leaf''
     = collect_subresults ex_stored ''leaf''"
  by (simp add: make_final_result_ok [OF ex_stored_aggregable] write_final_result_def
        collect_subresults_def)

lemma ex_first_run: "final_result_file ex_stored ''leaf'' = None"
  by (simp add: ex_stored_def ex_world_def)

theorem wall_clock_accumulates_witness:
  "final_result_file ex_stored ''leaf'' = None \<and>
   (\<exists>fr1 fr2.
      final_result_file (snd (make_final_result ''leaf'' 5 ex_stored)) ''leaf'' = Some fr1 \<and>
      final_result_file
        (snd (make_final_result ''leaf'' 3 (snd (make_final_result ''leaf'' 5 ex_stored)))) ''leaf''
        = Some fr2 \<and>
      wall_clock_elapsed_min fr1 = 5 \<and> wall_clock_elapsed_min fr2 = 8 \<and>
      process_elapsed_min fr2 = 6)"
  using wall_clock_accumulates [of ex_stored "''leaf''"
          "snd (make_final_result ''leaf'' 5 ex_stored)" 5 3]
        ex_stored_aggregable ex_first_run
  by (auto simp add: ex_second_run ex_stored_subresults ex_subresult_def)

subsection \<open>The evaluation history of a fit\<close>

lemma f_appends:
  "run_render_single E (renders w) (rps_of wl x) = (r, t) \<Longrightarrow>
   snd (f E wl r_m t_m x (h, w)) = (h @ [row x r t], w\<lparr>renders := Suc (renders w)\<rparr>)"
  by (simp add: f_def render_def)

lemma run_strategy_extends:
  "\<exists>ys. fst (snd (run_strategy (f E wl r_m t_m) strat (h, w))) = h @ ys"
proof (induction strat arbitrary: h w)
  case (Return res)
  show ?case by simp
next
  case (Eval x k)
  obtain r t where rt: "run_render_single E (renders w) (rps_of wl x) = (r, t)"
    by (cases "run_render_single E (renders w) (rps_of wl x)")
  obtain y where fx: "f E wl r_m t_m x (h, w)
      = (y, (h @ [row x r t], w\<lparr>renders := Suc (renders w)\<rparr>))"
    using f_appends [OF rt, where r_m = r_m and t_m = t_m and h = h]
    by (cases "f E wl r_m t_m x (h, w)") simp
  obtain ys where "fst (snd (run_strategy (f E wl r_m t_m) (k y)
      (h @ [row x r t], w\<lparr>renders := Suc (renders w)\<rparr>))) = (h @ [row x r t]) @ ys"
    using Eval.IH [of "k y" "h @ [row x r t]" "w\<lparr>renders := Suc (renders w)\<rparr>"] by auto
  then show ?case by (simp add: fx)
qed

lemma select_recognized:
  "opt_method \<in> {''least_squares'', ''shgo'', ''anneal'', ''basin_hopping''} \<Longrightarrow>
   \<exists>strat. select_strategy E opt_method x_0 = Inr strat"
  by (auto simp add: select_strategy_def)

lemma subresult_written:
  "map_of (subresult_files (write_subresult set_name sr w) set_name) (sr_wl sr) = Some sr"
  by (simp add: write_subresult_def update_conv')

lemma row_nth:
  "row x r t ! 4 = r" "row x r t ! 5 = t"
  by (simp_all add: row_def split: prod.splits)

text \<open>
  C2. For a wavelength without a sub-result and any of the four recognized optimizer
  identifiers, whatever the selected strategy does, the fit completes and persists a
  sub-result whose history starts with the starting guess with outputs \<open>(0, 0)\<close> and
  ends with the vector \<open>res.x\<close> the strategy returned together with what the simulator
  answered for it in one evaluation made after the strategy had ended: the history is
  one record longer than the strategy left it, and the modelled reflectance and
  transmittance of the sub-result are those of this last evaluation.
\<close>

theorem history_first_and_last:
  assumes "\<not> subresult_exists w set_name wl"
      and "opt_method \<in> {''least_squares'', ''shgo'', ''anneal'', ''basin_hopping''}"
  shows "\<exists>strat res h2 w2 r t sr.
           select_strategy E opt_method (get_starting_guess (1 - (r_m + t_m))) = Inr strat \<and>
           run_strategy (f E wl r_m t_m) strat
             ([row (get_starting_guess (1 - (r_m + t_m))) 0 0],
              snd (render E (rps_reference wl) w)) = (res, (h2, w2)) \<and>
           run_render_single E (renders w2) (rps_of wl (res_x res)) = (r, t) \<and>
           fst (optimize_single_wl E wl r_m t_m set_name opt_method w) = Inr () \<and>
           map_of (subresult_files (snd (optimize_single_wl E wl r_m t_m set_name opt_method w))
             set_name) wl = Some sr \<and>
           first_record sr = row (get_starting_guess (1 - (r_m + t_m))) 0 0 \<and>
           last_record sr = row (res_x res) r t \<and>
           optimizer_result sr = res \<and>
           reflectance_modeled sr = r \<and> transmittance_modeled sr = t \<and>
           length (history_reflectance sr) = length h2 + 1 \<and>
           iterations sr = length h2"
proof -
  let ?x0 = "get_starting_guess (1 - (r_m + t_m))"
  let ?w1 = "snd (render E (rps_reference wl) w)"
  obtain strat where sel: "select_strategy E opt_method ?x0 = Inr strat"
    using select_recognized [OF assms(2)] by blast
  obtain res h2 w2 where run:
    "run_strategy (f E wl r_m t_m) strat ([row ?x0 0 0], ?w1) = (res, (h2, w2))"
    by (metis prod.exhaust)
  obtain r t where rt: "run_render_single E (renders w2) (rps_of wl (res_x res)) = (r, t)"
    by (metis prod.exhaust)
  obtain ys where h2: "h2 = [row ?x0 0 0] @ ys"
    using run_strategy_extends [of E wl r_m t_m strat "[row ?x0 0 0]" ?w1] by (auto simp add: run)
  let ?h3 = "h2 @ [row (res_x res) r t]"
  let ?sr = "make_res_dict wl r_m t_m opt_method res
               (perf_counter E (renders w2) - perf_counter E (renders w)) ?h3"
  have opt: "optimize_single_wl E wl r_m t_m set_name opt_method w
      = (Inr (), write_subresult set_name ?sr (w2\<lparr>renders := Suc (renders w2)\<rparr>))"
    using assms(1) by (simp add: optimize_single_wl_def Let_def sel run f_appends [OF rt])
  have wl: "sr_wl ?sr = wl" by (simp add: make_res_dict_def)
  have stored: "map_of (subresult_files (snd (optimize_single_wl E wl r_m t_m set_name opt_method w))
             set_name) wl = Some ?sr"
    using subresult_written [of set_name ?sr] by (simp add: opt wl)
  have first: "first_record ?sr = row ?x0 0 0"
    by (simp add: first_record_def make_res_dict_def h2 row_def split: prod.splits)
  have last: "last_record ?sr = row (res_x res) r t"
    by (simp add: last_record_def make_res_dict_def row_def split: prod.splits)
  have rest: "optimizer_result ?sr = res" "reflectance_modeled ?sr = r"
    "transmittance_modeled ?sr = t" "length (history_reflectance ?sr) = length h2 + 1"
    "iterations ?sr = length h2"
    by (simp_all add: make_res_dict_def row_nth)
  show ?thesis
    using sel run rt opt stored first last rest by (intro exI conjI) simp_all
qed

lemma ex_recognized:
  "''basin_hopping'' \<in> {''least_squares'', ''shgo'', ''anneal'', ''basin_hopping''}"
  by simp

theorem history_first_and_last_witness:
  "\<not> subresult_exists ex_world ''leaf'' 500 \<and>
   ''basin_hopping'' \<in> {''least_squares'', ''shgo'', ''anneal'', ''basin_hopping''} \<and>
   (\<exists>sr. map_of (subresult_files
            (snd (optimize_single_wl ex_collaborators 500 (1 / 5) (3 / 10) ''leaf''
                    ''basin_hopping'' ex_world)) ''leaf'') 500 = Some sr \<and>
         first_record sr = row (get_starting_guess (1 / 2)) 0 0 \<and>
         last_record sr = row (get_starting_guess (1 / 2)) (poly2 (1 / 2) mix_factor)
                            (poly2 (1 / 2) scattering_anisotropy + 1 / 2))"
proof -
  let ?x0 = "get_starting_guess (1 / 2)"
  let ?m = "poly2 (1 / 2) mix_factor"
  let ?a = "poly2 (1 / 2) scattering_anisotropy + 1 / 2"
  let ?strat = "Eval ?x0 (\<lambda>y. Eval (1 / 2, 1 / 2, 0, 1 / 4)
                  (\<lambda>y'. Return \<lparr>res_x = ?x0, nit = Some 2\<rparr>))"
  have sel: "select_strategy ex_collaborators ''basin_hopping'' ?x0 = Inr ?strat"
    by (simp add: select_strategy_def ex_collaborators_def)
  have run: "run_strategy (f ex_collaborators 500 (1 / 5) (3 / 10)) ?strat
        ([row ?x0 0 0], snd (render ex_collaborators (rps_reference 500) ex_world))
      = (\<lparr>res_x = ?x0, nit = Some 2\<rparr>,
         ([row ?x0 0 0, row ?x0 ?m ?a, row (1 / 2, 1 / 2, 0, 1 / 4) (1 / 4) (1 / 2)],
          ex_world\<lparr>renders := 3\<rparr>))"
    by (simp add: f_def render_def ex_collaborators_def ex_render_def rps_of_def
          get_starting_guess_def ex_world_def)
  have fin: "run_render_single ex_collaborators 3 (rps_of 500 ?x0) = (?m, ?a)"
    by (simp add: ex_collaborators_def ex_render_def rps_of_def get_starting_guess_def)
  obtain res h2 w2 r t sr where
    a: "run_strategy (f ex_collaborators 500 (1 / 5) (3 / 10)) ?strat
          ([row ?x0 0 0], snd (render ex_collaborators (rps_reference 500) ex_world))
        = (res, (h2, w2))" and
    b: "run_render_single ex_collaborators (renders w2) (rps_of 500 (res_x res)) = (r, t)" and
    c: "map_of (subresult_files
            (snd (optimize_single_wl ex_collaborators 500 (1 / 5) (3 / 10) ''leaf''
                    ''basin_hopping'' ex_world)) ''leaf'') 500 = Some sr" and
    d: "first_record sr = row ?x0 0 0" "last_record sr = row (res_x res) r t"
    using history_first_and_last
            [OF ex_world_fresh ex_recognized, of ex_collaborators "1 / 5" "3 / 10"]
    by (auto simp add: sel)
  have "res = \<lparr>res_x = ?x0, nit = Some 2\<rparr>" "renders w2 = 3"
    using a unfolding run by auto
  then have "r = ?m" "t = ?a" using b by (simp_all add: fin)
  then show ?thesis
    using c d \<open>res = \<lparr>res_x = ?x0, nit = Some 2\<rparr>\<close> ex_world_fresh by simp
qed

subsection \<open>Spectral resolution\<close>

lemma resolution_one_keeps_all: "run_optimization_targets targets 1 = Inr targets"
  by (simp add: run_optimization_targets_def)

text \<open>
  C7. The claim holds for \<open>resolution = 1\<close> (the lemma above). For another
  resolution the slice \<open>targets[0:-1:resolution]\<close> stops before the last entry: of five
  targets and resolution 2 the code keeps the entries at indices 0 and 2 and drops the
  entry at index 4, which is a second entry as well.
\<close>

theorem resolution_drops_last:
  "run_optimization_targets [500, 510, 520, 530, 540 :: real] 2 = Inr [500, 520]"
  by (simp add: run_optimization_targets_def py_slice_def adjust_index_def slice_length_def
        Let_def upt_rec)

subsection \<open>Batches\<close>

lemma fold_append_map:
  "fold (\<lambda>j selector. selector @ [g j]) js acc = acc @ map g js"
  by (induction js arbitrary: acc) simp_all

lemma make_selector_eq:
  "make_selector i batch_size step_size = map (\<lambda>j. i + j * step_size) [0..<batch_size]"
  by (simp add: make_selector_def fold_append_map)

lemma batch_le_step:
  fixes b n :: nat
  assumes "0 < b" "b \<le> n"
  shows "b \<le> n div (n div b)"
proof -
  have q: "0 < n div b" using assms by (simp add: div_greater_zero_iff)
  have "b * (n div b) \<le> n" by simp
  then show ?thesis using q by (simp add: less_eq_div_iff_mult_less_eq)
qed

lemma selected_below:
  fixes b n i j :: nat
  assumes "0 < b" "b \<le> n" "i < b" "j < n div b"
  shows "i + j * (n div (n div b)) < n"
proof -
  define q where "q = n div b"
  define s where "s = n div q"
  have "i < s" using batch_le_step [OF assms(1,2)] assms(3) by (simp add: s_def q_def)
  moreover have "Suc j \<le> q" using assms(4) by (simp add: q_def)
  then have "Suc j * s \<le> q * s" by (rule mult_le_mono1)
  moreover have "q * s \<le> n" by (simp add: s_def)
  ultimately have "i + j * s < n" by simp
  then show ?thesis by (simp add: s_def q_def)
qed

lemma stride_is_batch_n:
  fixes b n :: nat
  assumes "0 < b" "b \<le> n" "n mod b < n div b"
  shows "n div (n div b) = b"
proof -
  define q where "q = n div b"
  have q: "0 < q" using assms by (simp add: q_def div_greater_zero_iff)
  have "n div q = (n mod b + b * q) div q"
    by (simp only: q_def mod_mult_div_eq)
  also have "\<dots> = b + (n mod b) div q"
    using q div_mult_self1 [of q "n mod b" b] by simp
  also have "\<dots> = b" using assms(3) by (simp add: q_def)
  finally show ?thesis by (simp add: q_def)
qed

lemma take_selector:
  assumes "0 < b" "b \<le> length targets" "i < b"
  shows "take_indices targets
           (make_selector i (length targets div b) (length targets div (length targets div b)))
         = Inr (map (\<lambda>j. targets ! (i + j * (length targets div (length targets div b))))
                  [0..<length targets div b])"
  using selected_below [OF assms(1,2,3)]
  by (simp add: take_indices_def make_selector_eq list_all_iff comp_def)

lemma batch_loop_recorded:
  assumes "0 < b" "b \<le> length targets" "\<forall>i \<in> set is. i < b"
  shows "batch_loop record_batch targets (length targets div b)
           (length targets div (length targets div b)) is batches
         = (Inr (), batches @ map (\<lambda>i. map (\<lambda>j. targets ! (i + j * (length targets div (length targets div b))))
                  [0..<length targets div b]) is)"
  using assms(3)
proof (induction "is" arbitrary: batches)
  case Nil
  show ?case by simp
next
  case (Cons i rest)
  then show ?case
    by (simp add: take_selector [OF assms(1,2)] record_batch_def)
qed

lemma batches_recorded:
  assumes "0 < batch_n" "batch_n \<le> length targets"
  shows "run_optimization_in_batches record_batch targets batch_n [] =
           (Inr (),
            map (\<lambda>i. map (\<lambda>j. targets ! (i + j * (length targets div (length targets div batch_n))))
                        [0..<length targets div batch_n]) [0..<batch_n]
            @ (if length targets mod batch_n \<noteq> 0 then [[targets ! (length targets - 1)]] else []))"
proof -
  have q: "0 < length targets div batch_n" using assms by (simp add: div_greater_zero_iff)
  have n: "targets \<noteq> []" using assms by auto
  show ?thesis
    using assms q n
    by (simp add: run_optimization_in_batches_def int_div_def Let_def
          batch_loop_recorded [OF assms, of "[0..<batch_n]"] take_indices_def record_batch_def)
qed

lemma batches_zero_division:
  "batch_n = 0 \<or> length targets < batch_n \<Longrightarrow>
   run_optimization_in_batches run targets batch_n s = (Inl ZeroDivisionError, s)"
  by (auto simp add: run_optimization_in_batches_def int_div_def Let_def)

text \<open>
  C6, as the claim has it: of ten targets in three batches, batch 0 would be the targets
  at indices 0, 3, 6 and 9. The code gives batch 0 the three targets at 0, 3 and 6, and
  index 9 is run in the extra batch only.
\<close>

theorem batch_zero_counterexample:
  "snd (run_optimization_in_batches record_batch [0, 1, 2, 3, 4, 5, 6, 7, 8, 9 :: nat] 3 [])
     = [[0, 3, 6], [1, 4, 7], [2, 5, 8], [9]] \<and>
   hd (snd (run_optimization_in_batches record_batch [0, 1, 2, 3, 4, 5, 6, 7, 8, 9 :: nat] 3 []))
     \<noteq> [0, 3, 6, 9]"
  by (simp add: batches_recorded upt_rec)

lemma stride_irrelevant:
  fixes b n j :: nat
  assumes "0 < b" "b \<le> n" "n mod b \<le> 1" "j < n div b"
  shows "j * (n div (n div b)) = j * b"
proof (cases "n mod b < n div b")
  case True
  then show ?thesis by (simp add: stride_is_batch_n [OF assms(1,2)])
next
  case False
  then have "n div b \<le> 1" using assms(3) by simp
  then have "j = 0" using assms(4) by simp
  then show ?thesis by simp
qed

text \<open>
  C6, amended: for a batch count between 1 and the number \<open>wl_n\<close> of targets that leaves
  a remainder of at most one target, batch \<open>i\<close> holds exactly the targets at the first
  \<open>wl_n div batch_n\<close> of the indices \<open>i\<close>, \<open>i + batch_n\<close>, \<open>i + 2 batch_n\<close>, ..., all of
  them below \<open>wl_n\<close>, and one more batch with the last target alone is run exactly when
  \<open>batch_n\<close> does not divide \<open>wl_n\<close>. Nothing is said of a remainder of two or more.
\<close>

theorem batches_selected:
  assumes "0 < batch_n" and "batch_n \<le> length targets" and "length targets mod batch_n \<le> 1"
  shows "run_optimization_in_batches record_batch targets batch_n [] =
           (Inr (),
            map (\<lambda>i. map (\<lambda>j. targets ! (i + j * batch_n)) [0..<length targets div batch_n])
                [0..<batch_n]
            @ (if length targets mod batch_n \<noteq> 0 then [[targets ! (length targets - 1)]] else []))
         \<and> (\<forall>i < batch_n. \<forall>j < length targets div batch_n. i + j * batch_n < length targets)"
proof -
  let ?q = "length targets div batch_n"
  let ?s = "length targets div ?q"
  have same: "j * ?s = j * batch_n" if "j < ?q" for j
    using stride_irrelevant [OF assms that] .
  have inner: "map (\<lambda>j. targets ! (i + j * ?s)) [0..<?q]
      = map (\<lambda>j. targets ! (i + j * batch_n)) [0..<?q]" for i
    by (rule map_cong) (simp_all add: same)
  have below: "i + j * batch_n < length targets" if "i < batch_n" "j < ?q" for i j
    using selected_below [OF assms(1,2) that] same [OF that(2)] by simp
  show ?thesis
    using batches_recorded [OF assms(1,2)] below by (simp add: inner)
qed

theorem batches_selected_witness:
  "(0::nat) < 2 \<and> 2 \<le> length [0, 1, 2, 3, 4, 5, 6 :: nat] \<and>
   length [0, 1, 2, 3, 4, 5, 6 :: nat] mod 2 \<le> 1 \<and>
   run_optimization_in_batches record_batch [0, 1, 2, 3, 4, 5, 6 :: nat] 2 []
     = (Inr (), [[0, 2, 4], [1, 3, 5], [6]])"
  using batches_selected [of 2 "[0, 1, 2, 3, 4, 5, 6 :: nat]"]
  by (simp add: upt_rec)

end
